theory Spec2Isabelle
  imports Main "HOL-Library.Sublist"
begin

section \<open>The Sphinx configuration module \<open>docs/conf.py\<close> of OpenGSLB\<close>

text \<open>
  The module is a sequence of assignments of literals to module-level names. Each name is
  embedded as a constant of the same name holding the assigned value: a Python \<open>str\<close> as a
  \<open>string\<close>, a list display as a list, a dict display as an association list in the order
  the entries are written (looked up with \<open>map_of\<close>).
\<close>

subsection \<open>Values\<close>

text \<open>
  The Python values that occur in the module. A dictionary keeps its insertion order,
  so it is an association list.
\<close>

datatype pyval =
    VStr string
  | VInt int
  | VBool bool
  | VList "pyval list"
  | VDict "(pyval \<times> pyval) list"

subsection \<open>Project information (lines 5 to 7)\<close>

definition project :: string where
  "project = ''OpenGSLB''"

definition copyright :: string where
  "copyright = ''2025, Logan Ross''"

definition author :: string where
  "author = ''Logan Ross''"

subsection \<open>General configuration (lines 10 to 45)\<close>

definition extensions :: "string list" where
  "extensions =
    [ ''myst_parser'',
      ''sphinx.ext.autodoc'',
      ''sphinx.ext.viewcode'',
      ''sphinx_copybutton'',
      ''sphinx_design'' ]"

definition myst_enable_extensions :: "string list" where
  "myst_enable_extensions =
    [ ''colon_fence'',
      ''deflist'',
      ''fieldlist'',
      ''html_admonition'',
      ''html_image'',
      ''replacements'',
      ''smartquotes'',
      ''strikethrough'',
      ''substitution'',
      ''tasklist'' ]"

definition myst_heading_anchors :: int where
  "myst_heading_anchors = 3"

definition source_suffix :: "(string \<times> string) list" where
  "source_suffix =
    [ (''.rst'', ''restructuredtext''),
      (''.md'', ''markdown'') ]"

definition master_doc :: string where
  "master_doc = ''index''"

definition exclude_patterns :: "string list" where
  "exclude_patterns = [''_build'', ''Thumbs.db'', ''.DS_Store'']"

subsection \<open>Options for HTML output (lines 48 to 56)\<close>

definition html_theme :: string where
  "html_theme = ''sphinx_rtd_theme''"

definition html_theme_options :: "(string \<times> pyval) list" where
  "html_theme_options =
    [ (''navigation_depth'', VInt 4),
      (''collapse_navigation'', VBool False),
      (''sticky_navigation'', VBool True),
      (''includehidden'', VBool True),
      (''titles_only'', VBool False) ]"

subsection \<open>Options for linkcheck and warnings (lines 62 to 68)\<close>

text \<open>
  The two patterns are raw strings; the second one holds backslashes, written here as the
  character \<open>0x5C\<close>: it is \<^verbatim>\<open>http://127\.0\.0\.1.*\<close>.
\<close>

definition backslash :: char where
  "backslash = CHR 0x5C"

definition linkcheck_ignore :: "string list" where
  "linkcheck_ignore =
    [ ''http://localhost.*'',
      ''http://127'' @ [backslash] @ ''.0'' @ [backslash] @ ''.0'' @ [backslash] @ ''.1.*'' ]"

definition suppress_warnings :: "string list" where
  "suppress_warnings = [''myst.header'', ''ref.myst'']"

subsection \<open>The feature list of the specification\<close>

text \<open>
  The specification's list of markdown-extension toggles, in its own words and order:
  definition lists, field lists, admonitions, inline HTML images, text substitutions,
  smart quotes, strikethrough, substitutions, task lists; each under the name MyST gives it.
\<close>

definition spec_markdown_toggles :: "string list" where
  "spec_markdown_toggles =
    [ ''deflist'',
      ''fieldlist'',
      ''html_admonition'',
      ''html_image'',
      ''replacements'',
      ''smartquotes'',
      ''strikethrough'',
      ''substitution'',
      ''tasklist'' ]"

subsection \<open>Parsers and the extensions that provide them\<close>

text \<open>
  Sphinx parses \<open>restructuredtext\<close> itself; the \<open>markdown\<close> parser is registered by the
  extension \<open>myst_parser\<close>. \<open>parser_provider p\<close> is the extension a parser identifier needs,
  \<open>None\<close> when it needs none.
\<close>

definition parser_provider :: "string \<Rightarrow> string option" where
  "parser_provider p = (if p = ''markdown'' then Some ''myst_parser'' else None)"

section \<open>How the link checker reads the ignore patterns\<close>

text \<open>
  Sphinx compiles every entry of \<open>linkcheck_ignore\<close> with \<open>re.compile\<close> and skips a URL
  when \<open>pattern.match(url)\<close> succeeds for one of them: a match anchored at the start of
  the URL that may end anywhere. The fragment of Python's pattern language that the two
  entries use is embedded: an ordinary character, a backslash followed by a character that
  is no ASCII letter or digit (that character, literally), \<open>.\<close> (any character but a
  newline), and \<open>*\<close> after one of these. \<open>parse_re\<close> is \<open>None\<close> on every other pattern.
\<close>

datatype atom = Lit char | AnyChar

datatype item = One atom | Star atom

definition newline :: char where
  "newline = CHR 0x0A"

definition is_alnum :: "char \<Rightarrow> bool" where
  "is_alnum c =
    (let n = (of_char c :: nat)
     in (48 \<le> n \<and> n \<le> 57) \<or> (65 \<le> n \<and> n \<le> 90) \<or> (97 \<le> n \<and> n \<le> 122))"

fun parse_atom :: "string \<Rightarrow> (atom \<times> string) option" where
  "parse_atom [] = None"
| "parse_atom (c # cs) =
    (if c = backslash then
       (case cs of
          [] \<Rightarrow> None
        | d # ds \<Rightarrow> if is_alnum d then None else Some (Lit d, ds))
     else if c = CHR ''.'' then Some (AnyChar, cs)
     else if c \<in> set ''^$*+?{}[]|()'' then None
     else Some (Lit c, cs))"

function parse_re :: "string \<Rightarrow> item list option" where
  "parse_re [] = Some []"
| "parse_re (c # cs) =
    (case parse_atom (c # cs) of
       None \<Rightarrow> None
     | Some (a, rest) \<Rightarrow>
         (case rest of
            [] \<Rightarrow> Some [One a]
          | q # rest' \<Rightarrow>
              if q = CHR ''*'' then
                (case rest' of
                   [] \<Rightarrow> Some [Star a]
                 | q' # _ \<Rightarrow>
                     if q' \<in> set ''*+?{'' then None
                     else map_option (Cons (Star a)) (parse_re rest'))
              else map_option (Cons (One a)) (parse_re rest)))"
  by pat_completeness auto
termination
  by (relation "measure length") (auto split: if_splits list.splits)

fun atom_ok :: "atom \<Rightarrow> char \<Rightarrow> bool" where
  "atom_ok (Lit c) x = (x = c)"
| "atom_ok AnyChar x = (x \<noteq> newline)"

text \<open>
  Matching from the start of the string; once the pattern is used up the rest of the
  string is free. A starred atom either takes one more character or stops.
\<close>

fun match_items :: "item list \<Rightarrow> string \<Rightarrow> bool" where
  "match_items [] s = True"
| "match_items (One a # r) [] = False"
| "match_items (One a # r) (x # s) = (atom_ok a x \<and> match_items r s)"
| "match_items (Star a # r) [] = match_items r []"
| "match_items (Star a # r) (x # s) =
     ((atom_ok a x \<and> match_items (Star a # r) s) \<or> match_items r (x # s))"

definition re_match :: "string \<Rightarrow> string \<Rightarrow> bool option" where
  "re_match p u = map_option (\<lambda>r. match_items r u) (parse_re p)"

text \<open>A URL is left out of link validation when one of the patterns matches it.\<close>

definition linkcheck_ignored :: "string \<Rightarrow> bool" where
  "linkcheck_ignored u = list_ex (\<lambda>p. re_match p u = Some True) linkcheck_ignore"

section \<open>Evaluating the module\<close>

text \<open>
  The build tool executes the module top to bottom in a namespace. Every statement of
  the module is an assignment of a literal: a string, an integer, \<open>True\<close> or \<open>False\<close>, a
  list display or a dict display. Evaluating a display evaluates its parts from left to
  right; a dict display raises \<open>TypeError\<close> on a key that cannot be hashed (a list or a
  dict), and a key written twice keeps its first position and its last value.
\<close>

datatype py_error = TypeError

datatype expr =
    Str string
  | Num int
  | Bool bool
  | ListDisplay "expr list"
  | DictDisplay "(expr \<times> expr) list"

datatype stmt = Assign string expr

type_synonym env = "string \<rightharpoonup> pyval"

fun hashable :: "pyval \<Rightarrow> bool" where
  "hashable (VStr _) = True"
| "hashable (VInt _) = True"
| "hashable (VBool _) = True"
| "hashable (VList _) = False"
| "hashable (VDict _) = False"

fun dict_set :: "(pyval \<times> pyval) list \<Rightarrow> pyval \<Rightarrow> pyval \<Rightarrow> (pyval \<times> pyval) list" where
  "dict_set [] k v = [(k, v)]"
| "dict_set ((k', v') # d) k v =
     (if k' = k then (k', v) # d else (k', v') # dict_set d k v)"

function eval :: "expr \<Rightarrow> py_error + pyval"
  and eval_list :: "expr list \<Rightarrow> py_error + pyval list"
  and eval_items ::
    "(expr \<times> expr) list \<Rightarrow> (pyval \<times> pyval) list \<Rightarrow> py_error + (pyval \<times> pyval) list"
where
  "eval (Str s) = Inr (VStr s)"
| "eval (Num n) = Inr (VInt n)"
| "eval (Bool b) = Inr (VBool b)"
| "eval (ListDisplay es) =
     (case eval_list es of Inl err \<Rightarrow> Inl err | Inr vs \<Rightarrow> Inr (VList vs))"
| "eval (DictDisplay kvs) =
     (case eval_items kvs [] of Inl err \<Rightarrow> Inl err | Inr d \<Rightarrow> Inr (VDict d))"
| "eval_list [] = Inr []"
| "eval_list (e # es) =
     (case eval e of
        Inl err \<Rightarrow> Inl err
      | Inr v \<Rightarrow> (case eval_list es of Inl err \<Rightarrow> Inl err | Inr vs \<Rightarrow> Inr (v # vs)))"
| "eval_items [] d = Inr d"
| "eval_items ((ke, ve) # kvs) d =
     (case eval ke of
        Inl err \<Rightarrow> Inl err
      | Inr k \<Rightarrow>
          (case eval ve of
             Inl err \<Rightarrow> Inl err
           | Inr v \<Rightarrow>
               if hashable k then eval_items kvs (dict_set d k v) else Inl TypeError))"
  by pat_completeness auto
termination
  by (relation "measure (\<lambda>x. case x of
          Inl e \<Rightarrow> size e
        | Inr (Inl es) \<Rightarrow> size_list size es
        | Inr (Inr (kvs, d)) \<Rightarrow> size_list (size_prod size size) kvs)") auto

fun exec_stmt :: "stmt \<Rightarrow> env \<Rightarrow> py_error + env" where
  "exec_stmt (Assign x e) env =
     (case eval e of Inl err \<Rightarrow> Inl err | Inr v \<Rightarrow> Inr (env(x \<mapsto> v)))"

fun exec_module :: "stmt list \<Rightarrow> env \<Rightarrow> py_error + env" where
  "exec_module [] env = Inr env"
| "exec_module (s # ss) env =
     (case exec_stmt s env of Inl err \<Rightarrow> Inl err | Inr env' \<Rightarrow> exec_module ss env')"

text \<open>The statements of \<open>docs/conf.py\<close>, in the order of the file.\<close>

definition conf_module :: "stmt list" where
  "conf_module =
    [ Assign ''project'' (Str ''OpenGSLB''),
      Assign ''copyright'' (Str ''2025, Logan Ross''),
      Assign ''author'' (Str ''Logan Ross''),
      Assign ''extensions''
        (ListDisplay
          [ Str ''myst_parser'',
            Str ''sphinx.ext.autodoc'',
            Str ''sphinx.ext.viewcode'',
            Str ''sphinx_copybutton'',
            Str ''sphinx_design'' ]),
      Assign ''myst_enable_extensions''
        (ListDisplay
          [ Str ''colon_fence'',
            Str ''deflist'',
            Str ''fieldlist'',
            Str ''html_admonition'',
            Str ''html_image'',
            Str ''replacements'',
            Str ''smartquotes'',
            Str ''strikethrough'',
            Str ''substitution'',
            Str ''tasklist'' ]),
      Assign ''myst_heading_anchors'' (Num 3),
      Assign ''source_suffix''
        (DictDisplay
          [ (Str ''.rst'', Str ''restructuredtext''),
            (Str ''.md'', Str ''markdown'') ]),
      Assign ''master_doc'' (Str ''index''),
      Assign ''exclude_patterns''
        (ListDisplay [Str ''_build'', Str ''Thumbs.db'', Str ''.DS_Store'']),
      Assign ''html_theme'' (Str ''sphinx_rtd_theme''),
      Assign ''html_theme_options''
        (DictDisplay
          [ (Str ''navigation_depth'', Num 4),
            (Str ''collapse_navigation'', Bool False),
            (Str ''sticky_navigation'', Bool True),
            (Str ''includehidden'', Bool True),
            (Str ''titles_only'', Bool False) ]),
      Assign ''linkcheck_ignore''
        (ListDisplay
          [ Str ''http://localhost.*'',
            Str (''http://127'' @ [backslash] @ ''.0'' @ [backslash] @ ''.0''
                 @ [backslash] @ ''.1.*'') ]),
      Assign ''suppress_warnings'' (ListDisplay [Str ''myst.header'', Str ''ref.myst'']) ]"

text \<open>The names the module binds.\<close>

definition conf_names :: "string list" where
  "conf_names =
    [ ''project'', ''copyright'', ''author'', ''extensions'', ''myst_enable_extensions'',
      ''myst_heading_anchors'', ''source_suffix'', ''master_doc'', ''exclude_patterns'',
      ''html_theme'', ''html_theme_options'', ''linkcheck_ignore'', ''suppress_warnings'' ]"

text \<open>The namespace the module leaves, from the constants above.\<close>

definition str_list_val :: "string list \<Rightarrow> pyval" where
  "str_list_val xs = VList (map VStr xs)"

definition conf_bindings :: "(string \<times> pyval) list" where
  "conf_bindings =
    [ (''project'', VStr project),
      (''copyright'', VStr copyright),
      (''author'', VStr author),
      (''extensions'', str_list_val extensions),
      (''myst_enable_extensions'', str_list_val myst_enable_extensions),
      (''myst_heading_anchors'', VInt myst_heading_anchors),
      (''source_suffix'', VDict (map (\<lambda>(k, v). (VStr k, VStr v)) source_suffix)),
      (''master_doc'', VStr master_doc),
      (''exclude_patterns'', str_list_val exclude_patterns),
      (''html_theme'', VStr html_theme),
      (''html_theme_options'', VDict (map (\<lambda>(k, v). (VStr k, v)) html_theme_options)),
      (''linkcheck_ignore'', str_list_val linkcheck_ignore),
      (''suppress_warnings'', str_list_val suppress_warnings) ]"

section \<open>Properties of the configured values\<close>

text \<open>
  C1. The source-suffix mapping has exactly two entries: \<open>.rst\<close> is mapped to
  \<open>restructuredtext\<close> and \<open>.md\<close> to \<open>markdown\<close>; no other key is present.
\<close>

theorem source_suffix_two_entries:
  "dom (map_of source_suffix) = {''.rst'', ''.md''}
   \<and> map_of source_suffix ''.rst'' = Some ''restructuredtext''
   \<and> map_of source_suffix ''.md'' = Some ''markdown''
   \<and> length source_suffix = 2"
  by (simp add: source_suffix_def dom_map_of_conv_image_fst)

text \<open>
  C2, as the specification states it: the enabled markdown extensions are exactly the nine
  features it lists. The module enables a tenth one, \<open>colon_fence\<close>, which the list
  leaves out.
\<close>

theorem myst_toggles_counterexample:
  "''colon_fence'' \<in> set myst_enable_extensions
   \<and> ''colon_fence'' \<notin> set spec_markdown_toggles"
  by (simp add: myst_enable_extensions_def spec_markdown_toggles_def)

text \<open>
  C2, amended: the enabled markdown extensions are exactly the nine listed features
  together with \<open>colon_fence\<close>, ten entries without repetition.
\<close>

theorem myst_toggles_with_colon_fence:
  "set myst_enable_extensions = insert ''colon_fence'' (set spec_markdown_toggles)
   \<and> distinct myst_enable_extensions
   \<and> length myst_enable_extensions = 10"
  by (simp add: myst_enable_extensions_def spec_markdown_toggles_def)

text \<open>
  C4. The exclude patterns are exactly the three entries \<open>_build\<close>, \<open>Thumbs.db\<close> and
  \<open>.DS_Store\<close>.
\<close>

theorem exclude_patterns_three_entries:
  "set exclude_patterns = {''_build'', ''Thumbs.db'', ''.DS_Store''}
   \<and> length exclude_patterns = 3"
  by (simp add: exclude_patterns_def)

text \<open>
  C5. The theme options have exactly five keys: \<open>navigation_depth\<close> is bound to an
  integer, and \<open>collapse_navigation\<close>, \<open>sticky_navigation\<close>, \<open>includehidden\<close> and
  \<open>titles_only\<close> each to a boolean; the theme identifier is defined as well.
\<close>

theorem html_theme_options_five_options:
  "dom (map_of html_theme_options) =
     {''navigation_depth'', ''collapse_navigation'', ''sticky_navigation'',
      ''includehidden'', ''titles_only''}
   \<and> length html_theme_options = 5
   \<and> map_of html_theme_options ''navigation_depth'' = Some (VInt 4)
   \<and> map_of html_theme_options ''collapse_navigation'' = Some (VBool False)
   \<and> map_of html_theme_options ''sticky_navigation'' = Some (VBool True)
   \<and> map_of html_theme_options ''includehidden'' = Some (VBool True)
   \<and> map_of html_theme_options ''titles_only'' = Some (VBool False)
   \<and> html_theme = ''sphinx_rtd_theme''"
  by (simp add: html_theme_options_def html_theme_def dom_map_of_conv_image_fst)

text \<open>
  C6, as the specification states it: the copyright string contains \<open>OpenGSLB\<close>. It does
  not: no part of \<open>2025, Logan Ross\<close> reads \<open>OpenGSLB\<close>.
\<close>

theorem copyright_counterexample:
  "\<not> sublist ''OpenGSLB'' copyright"
  unfolding copyright_def by code_simp

text \<open>
  C6, amended: project name, copyright string and author string are non-empty, the project
  name is \<open>OpenGSLB\<close>, and the copyright string is \<open>2025, Logan Ross\<close>, which names the
  author.
\<close>

theorem project_metadata:
  "project \<noteq> [] \<and> copyright \<noteq> [] \<and> author \<noteq> []
   \<and> project = ''OpenGSLB''
   \<and> copyright = ''2025, Logan Ross''
   \<and> sublist author copyright"
proof -
  have "sublist author copyright"
    unfolding author_def copyright_def by code_simp
  then show ?thesis
    by (simp add: project_def copyright_def author_def)
qed

text \<open>
  C7. The suppressed warnings are exactly the two classes \<open>myst.header\<close> and \<open>ref.myst\<close>.
\<close>

theorem suppress_warnings_two_classes:
  "set suppress_warnings = {''myst.header'', ''ref.myst''}
   \<and> length suppress_warnings = 2"
  by (simp add: suppress_warnings_def)

text \<open>
  C10. The extensions list has no repeated entry and contains \<open>myst_parser\<close>, which
  provides the \<open>markdown\<close> parser named by the \<open>.md\<close> entry of the source-suffix mapping;
  every parser the mapping names has the extension it needs enabled.
\<close>

theorem extensions_provide_parsers:
  "distinct extensions
   \<and> ''myst_parser'' \<in> set extensions
   \<and> map_of source_suffix ''.md'' = Some ''markdown''
   \<and> parser_provider ''markdown'' = Some ''myst_parser''
   \<and> (\<forall>(suffix, parser) \<in> set source_suffix.
        \<forall>e. parser_provider parser = Some e \<longrightarrow> e \<in> set extensions)"
  by (simp add: extensions_def source_suffix_def parser_provider_def)

text \<open>The \<open>.md\<close> entry is such a parser, and its extension is in the list.\<close>

theorem extensions_provide_parsers_witness:
  "(''.md'', ''markdown'') \<in> set source_suffix
   \<and> parser_provider ''markdown'' = Some ''myst_parser''
   \<and> ''myst_parser'' \<in> set extensions"
  using extensions_provide_parsers
  by (simp add: source_suffix_def)

section \<open>What the ignore patterns match\<close>

lemma match_items_star_any: "match_items [Star AnyChar] u"
  by (induction u) simp_all

text \<open>A run of literal characters consumes exactly that run.\<close>

lemma match_items_literal:
  "match_items (map (One \<circ> Lit) s @ r) u = (\<exists>v. u = s @ v \<and> match_items r v)"
proof (induction s arbitrary: u)
  case Nil
  show ?case by simp
next
  case (Cons c s)
  show ?case
  proof (cases u)
    case Nil
    then show ?thesis by simp
  next
    case (Cons x u')
    then show ?thesis using Cons.IH [of u'] by auto
  qed
qed

lemma match_items_literal_then_any:
  "match_items (map (One \<circ> Lit) s @ [Star AnyChar]) u = prefix s u"
  by (simp add: match_items_literal match_items_star_any prefix_def)

lemma parse_re_localhost:
  "parse_re ''http://localhost.*'' =
     Some (map (One \<circ> Lit) ''http://localhost'' @ [Star AnyChar])"
  by (simp add: backslash_def)

lemma parse_re_loopback:
  "parse_re (''http://127'' @ [backslash] @ ''.0'' @ [backslash] @ ''.0''
             @ [backslash] @ ''.1.*'') =
     Some (map (One \<circ> Lit) ''http://127.0.0.1'' @ [Star AnyChar])"
  by (simp add: backslash_def is_alnum_def)

lemma re_match_localhost:
  "re_match ''http://localhost.*'' u = Some (prefix ''http://localhost'' u)"
  unfolding re_match_def parse_re_localhost
  by (simp only: option.map match_items_literal_then_any)

lemma re_match_loopback:
  "re_match (''http://127'' @ [backslash] @ ''.0'' @ [backslash] @ ''.0''
             @ [backslash] @ ''.1.*'') u =
     Some (prefix ''http://127.0.0.1'' u)"
  unfolding re_match_def parse_re_loopback
  by (simp only: option.map match_items_literal_then_any)

lemma linkcheck_ignored_iff:
  "linkcheck_ignored u = (prefix ''http://localhost'' u \<or> prefix ''http://127.0.0.1'' u)"
  unfolding linkcheck_ignored_def linkcheck_ignore_def
  by (simp only: list_ex_Nil_iff list_ex_Cons_iff re_match_localhost re_match_loopback
      option.inject simp_thms)

text \<open>
  C3. The ignore list holds two patterns and no other: the first matches exactly the URLs
  that begin with \<open>http://localhost\<close>, the second exactly those that begin with
  \<open>http://127.0.0.1\<close>.
\<close>

theorem linkcheck_ignore_two_patterns:
  "length linkcheck_ignore = 2
   \<and> (\<forall>u. re_match (linkcheck_ignore ! 0) u = Some (prefix ''http://localhost'' u))
   \<and> (\<forall>u. re_match (linkcheck_ignore ! 1) u = Some (prefix ''http://127.0.0.1'' u))"
proof -
  have "linkcheck_ignore ! 0 = ''http://localhost.*''"
    by (simp add: linkcheck_ignore_def)
  moreover have "linkcheck_ignore ! 1 =
      ''http://127'' @ [backslash] @ ''.0'' @ [backslash] @ ''.0'' @ [backslash] @ ''.1.*''"
    by (simp add: linkcheck_ignore_def)
  moreover have "length linkcheck_ignore = 2"
    by (simp add: linkcheck_ignore_def)
  ultimately show ?thesis
    by (simp only: re_match_localhost re_match_loopback simp_thms)
qed

text \<open>
  Two URLs the patterns match and two they do not; in the last one other characters stand
  where the pattern escapes its dots.
\<close>

theorem linkcheck_ignore_two_patterns_witness:
  "re_match (linkcheck_ignore ! 0) ''http://localhost:8080/health'' = Some True
   \<and> re_match (linkcheck_ignore ! 1) ''http://127.0.0.1:9090/metrics'' = Some True
   \<and> re_match (linkcheck_ignore ! 0) ''http://example.com/'' = Some False
   \<and> re_match (linkcheck_ignore ! 1) ''http://127a0b0c1/'' = Some False"
  using linkcheck_ignore_two_patterns by simp

text \<open>
  C9. Every URL that one of the ignore patterns matches begins with \<open>http://\<close>; a URL
  that begins with \<open>https://\<close> is never left out of link validation.
\<close>

theorem linkcheck_ignored_plain_http:
  "(linkcheck_ignored u \<longrightarrow> prefix ''http://'' u)
   \<and> (prefix ''https://'' u \<longrightarrow> \<not> linkcheck_ignored u)"
  unfolding linkcheck_ignored_iff
  by (auto simp: prefix_def)

text \<open>A local URL over plain HTTP is ignored; the same URL over HTTPS is not.\<close>

theorem linkcheck_ignored_plain_http_witness:
  "linkcheck_ignored ''http://localhost:8080/health''
   \<and> prefix ''http://'' ''http://localhost:8080/health''
   \<and> prefix ''https://'' ''https://localhost:8080/health''
   \<and> \<not> linkcheck_ignored ''https://localhost:8080/health''"
proof -
  have a: "linkcheck_ignored ''http://localhost:8080/health''"
    by (simp add: linkcheck_ignored_iff)
  have b: "prefix ''https://'' ''https://localhost:8080/health''"
    by simp
  from a b linkcheck_ignored_plain_http [of "''http://localhost:8080/health''"]
    linkcheck_ignored_plain_http [of "''https://localhost:8080/health''"]
  show ?thesis by blast
qed

section \<open>The module evaluates without an error\<close>

text \<open>A module can fail: a dict display with a list as a key raises \<open>TypeError\<close>.\<close>

lemma exec_module_can_fail:
  "exec_module [Assign ''bad'' (DictDisplay [(ListDisplay [], Num 1)])] env = Inl TypeError"
  by simp

lemma exec_conf_module:
  "exec_module conf_module env =
     Inr (env(''project'' \<mapsto> VStr project,
              ''copyright'' \<mapsto> VStr copyright,
              ''author'' \<mapsto> VStr author,
              ''extensions'' \<mapsto> str_list_val extensions,
              ''myst_enable_extensions'' \<mapsto> str_list_val myst_enable_extensions,
              ''myst_heading_anchors'' \<mapsto> VInt myst_heading_anchors,
              ''source_suffix'' \<mapsto> VDict (map (\<lambda>(k, v). (VStr k, VStr v)) source_suffix),
              ''master_doc'' \<mapsto> VStr master_doc,
              ''exclude_patterns'' \<mapsto> str_list_val exclude_patterns,
              ''html_theme'' \<mapsto> VStr html_theme,
              ''html_theme_options'' \<mapsto>
                 VDict (map (\<lambda>(k, v). (VStr k, v)) html_theme_options),
              ''linkcheck_ignore'' \<mapsto> str_list_val linkcheck_ignore,
              ''suppress_warnings'' \<mapsto> str_list_val suppress_warnings))"
  by (simp add: conf_module_def str_list_val_def project_def copyright_def author_def
      extensions_def myst_enable_extensions_def myst_heading_anchors_def source_suffix_def
      master_doc_def exclude_patterns_def html_theme_def html_theme_options_def
      linkcheck_ignore_def suppress_warnings_def)

lemma conf_bindings_names: "map fst conf_bindings = conf_names"
  by (simp add: conf_bindings_def conf_names_def)

lemma exec_conf_module_add:
  "exec_module conf_module env = Inr (env ++ map_of conf_bindings)"
  unfolding exec_conf_module
  by (rule arg_cong [where f = Inr], rule ext) (simp add: conf_bindings_def map_add_def)

text \<open>
  C8. Evaluating the module succeeds in every namespace: no statement raises, and the
  namespace it leaves is the one it started in with the thirteen names of the module bound
  to the configured values.
\<close>

theorem conf_module_always_succeeds:
  "exec_module conf_module env = Inr (env ++ map_of conf_bindings)
   \<and> dom (env ++ map_of conf_bindings) = dom env \<union> set conf_names
   \<and> distinct conf_names
   \<and> length conf_names = 13
   \<and> length conf_module = 13"
proof -
  have "dom (map_of conf_bindings) = set conf_names"
    by (simp add: dom_map_of_conv_image_fst conf_bindings_names [symmetric])
  moreover have "distinct conf_names" "length conf_names = 13"
    by (simp_all add: conf_names_def)
  moreover have "length conf_module = 13"
    by (simp add: conf_module_def)
  ultimately show ?thesis
    by (auto simp: exec_conf_module_add)
qed

text \<open>Started in the empty namespace, the module leaves exactly its own bindings.\<close>

theorem conf_module_always_succeeds_witness:
  "exec_module conf_module Map.empty = Inr (map_of conf_bindings)
   \<and> exec_module conf_module Map.empty \<noteq> Inl TypeError"
  using conf_module_always_succeeds [of Map.empty] by simp

end
